theory Spec2Isabelle
  imports Complex_Main
begin

section \<open>Fixed-rate mortgage calculations (mortgage.py)\<close>

text \<open>
  The program computes with Python floats and unbounded integers. Here a float is an
  exact real number: the rounding of IEEE double arithmetic, overflow (and the
  \<open>OverflowError\<close> that \<open>**\<close>, \<open>math.ceil\<close> and the conversion of a very large int
  raise), infinities and NaN are not part of the model. What Python raises on exact
  values is kept: a float division by zero, and zero to a negative power, raise
  \<open>ZeroDivisionError\<close>. Integers (\<open>years\<close>, \<open>num_annual_payments\<close>, the payment
  counter, the result of \<open>math.ceil\<close>) are \<open>int\<close>.

  The theorems about the specification's claims are therefore of two kinds only. Some
  are about the structure of the program: which function is called with which arguments,
  which branch is taken, what is printed. The others are runs on concrete inputs on which
  double arithmetic and exact arithmetic take the same branches and give the same
  integers. The lemmas that hold for all inputs of the exact arithmetic serve to evaluate
  those runs; none of them is offered as a property of the doubles, for which it need not
  hold.
\<close>

subsection \<open>Exceptions and float operations that can raise\<close>

datatype error = ZeroDivisionError | ValueError string | SystemExit

text \<open>\<open>a / b\<close> on floats (an int operand is converted first).\<close>

definition float_div :: "real \<Rightarrow> real \<Rightarrow> error + real" where
  "float_div a b = (if b = 0 then Inl ZeroDivisionError else Inr (a / b))"

text \<open>\<open>x ** n\<close> for a float \<open>x\<close> and an int \<open>n\<close>.\<close>

definition float_pow :: "real \<Rightarrow> int \<Rightarrow> error + real" where
  "float_pow x n =
     (if x = 0 \<and> n < 0 then Inl ZeroDivisionError
      else if 0 \<le> n then Inr (x ^ nat n)
      else Inr (1 / x ^ nat (- n)))"

subsection \<open>Amortization math\<close>

text \<open>
  \<^verbatim>\<open>
  def get_min_payment(mortgage_amount, annual_interest_rate, years=30, num_annual_payments=12):
      r = annual_interest_rate / num_annual_payments
      n = years * num_annual_payments
      minimum_payment = mortgage_amount * r * (1 + r) ** n / (((1 + r) ** n) - 1)
      return math.ceil(minimum_payment)
  \<close>
  The defaults \<open>years=30\<close> and \<open>num_annual_payments=12\<close> are written out at each call
  that relies on them.
\<close>

definition get_min_payment :: "real \<Rightarrow> real \<Rightarrow> int \<Rightarrow> int \<Rightarrow> error + int" where
  "get_min_payment mortgage_amount annual_interest_rate years num_annual_payments =
     (case float_div annual_interest_rate (real_of_int num_annual_payments) of
        Inl e \<Rightarrow> Inl e
      | Inr r \<Rightarrow>
          (let n = years * num_annual_payments in
           case float_pow (1 + r) n of
             Inl e \<Rightarrow> Inl e
           | Inr numer_pow \<Rightarrow>
               (case float_pow (1 + r) n of
                  Inl e \<Rightarrow> Inl e
                | Inr denom_pow \<Rightarrow>
                    (case float_div (mortgage_amount * r * numer_pow) (denom_pow - 1) of
                       Inl e \<Rightarrow> Inl e
                     | Inr minimum_payment \<Rightarrow> Inr \<lceil>minimum_payment\<rceil>))))"

text \<open>
  \<^verbatim>\<open>
  def interest_due(balance, annual_interest_rate, num_annual_payments=12):
      r = annual_interest_rate / num_annual_payments
      interest_due = balance * r
      return interest_due
  \<close>
\<close>

definition interest_due :: "real \<Rightarrow> real \<Rightarrow> int \<Rightarrow> error + real" where
  "interest_due balance annual_interest_rate num_annual_payments =
     (case float_div annual_interest_rate (real_of_int num_annual_payments) of
        Inl e \<Rightarrow> Inl e
      | Inr r \<Rightarrow> Inr (balance * r))"

subsection \<open>Payoff simulator\<close>

text \<open>
  The body of the \<open>while\<close> loop of \<open>remaining_payments\<close>, for one period:
  \<^verbatim>\<open>
  interest_due_value = interest_due(balance, annual_interest_rate, num_annual_payments)
  if target_payment is None:
      payment = get_min_payment(balance, annual_interest_rate)
  else:
      payment = min(target_payment, balance + interest_due_value)
  balance -= (payment - interest_due_value)
  \<close>
  It yields the interest due, the payment made and the balance after the period.
  A target payment that is absent (\<open>None\<close>) is \<open>None\<close> here as well.
\<close>

definition period :: "real \<Rightarrow> real \<Rightarrow> real option \<Rightarrow> int \<Rightarrow> error + (real \<times> real \<times> real)" where
  "period balance annual_interest_rate target_payment num_annual_payments =
     (case interest_due balance annual_interest_rate num_annual_payments of
        Inl e \<Rightarrow> Inl e
      | Inr interest_due_value \<Rightarrow>
          (case (case target_payment of
                   None \<Rightarrow>
                     (case get_min_payment balance annual_interest_rate 30 12 of
                        Inl e \<Rightarrow> Inl e
                      | Inr m \<Rightarrow> Inr (real_of_int m))
                 | Some t \<Rightarrow> Inr (min t (balance + interest_due_value))) of
             Inl e \<Rightarrow> Inl e
           | Inr payment \<Rightarrow>
               Inr (interest_due_value, payment, balance - (payment - interest_due_value))))"

text \<open>
  \<^verbatim>\<open>
  while balance > 0:
      ...
      payments += 1
  return payments
  \<close>
  The loop may run forever: the result \<open>None\<close> is "does not return",
  \<open>Some (Inl e)\<close> is an exception and \<open>Some (Inr k)\<close> the returned count.
\<close>

partial_function (option) remaining_payments_loop ::
  "real \<Rightarrow> real \<Rightarrow> real option \<Rightarrow> int \<Rightarrow> int \<Rightarrow> (error + int) option" where
  "remaining_payments_loop balance annual_interest_rate target_payment num_annual_payments payments =
     (if balance > 0 then
        (case period balance annual_interest_rate target_payment num_annual_payments of
           Inl e \<Rightarrow> Some (Inl e)
         | Inr (interest_due_value, payment, balance') \<Rightarrow>
             remaining_payments_loop balance' annual_interest_rate target_payment
               num_annual_payments (payments + 1))
      else Some (Inr payments))"

declare remaining_payments_loop.simps [code]

definition remaining_payments :: "real \<Rightarrow> real \<Rightarrow> real option \<Rightarrow> int \<Rightarrow> (error + int) option" where
  "remaining_payments balance annual_interest_rate target_payment num_annual_payments =
     remaining_payments_loop balance annual_interest_rate target_payment num_annual_payments 0"

subsection \<open>Calculation orchestrator\<close>

text \<open>
  \<open>main\<close> prints one or two lines. A printed line is a value here:
  \<^item> \<open>MinimumPaymentLine m\<close> is \<^verbatim>\<open>Minimum Payment: $m\<close>;
  \<^item> \<open>WarningLine\<close> is
    \<^verbatim>\<open>Your target payment is less than the minimum payment for this mortgage.\<close>;
  \<^item> \<open>PayoffLine t k\<close> is
    \<^verbatim>\<open>If you make payments of $t, you will pay off the mortgage in k payments.\<close>

  A run of \<open>main\<close> is what it has printed together with how it ended: it returned, it
  raised, or it never came back from the simulator.
\<close>

datatype line = MinimumPaymentLine int | WarningLine | PayoffLine real int

datatype outcome = Returns | Raises error | Hangs

record run =
  stdout :: "line list"
  outcome :: outcome

text \<open>
  \<^verbatim>\<open>
  minimum_payment = get_min_payment(mortgage_amount, annual_interest_rate, years, num_annual_payments)
  print(f"Minimum Payment: ${minimum_payment}")
  if target_payment is None:
      target_payment = minimum_payment
  if target_payment < minimum_payment:
      print("Your target payment is less than the minimum payment for this mortgage.")
  else:
      total_payments = remaining_payments(mortgage_amount, annual_interest_rate, target_payment, num_annual_payments)
      print(f"If you make payments of ${target_payment}, you will pay off the mortgage in {total_payments} payments.")
  \<close>
\<close>

definition main :: "real \<Rightarrow> real \<Rightarrow> int \<Rightarrow> int \<Rightarrow> real option \<Rightarrow> run" where
  "main mortgage_amount annual_interest_rate years num_annual_payments target_payment =
     (case get_min_payment mortgage_amount annual_interest_rate years num_annual_payments of
        Inl e \<Rightarrow> \<lparr>stdout = [], outcome = Raises e\<rparr>
      | Inr minimum_payment \<Rightarrow>
          (let target = (case target_payment of
                           None \<Rightarrow> real_of_int minimum_payment
                         | Some t \<Rightarrow> t)
           in if target < real_of_int minimum_payment then
                \<lparr>stdout = [MinimumPaymentLine minimum_payment, WarningLine], outcome = Returns\<rparr>
              else
                (case remaining_payments mortgage_amount annual_interest_rate (Some target)
                        num_annual_payments of
                   None \<Rightarrow> \<lparr>stdout = [MinimumPaymentLine minimum_payment], outcome = Hangs\<rparr>
                 | Some (Inl e) \<Rightarrow>
                     \<lparr>stdout = [MinimumPaymentLine minimum_payment], outcome = Raises e\<rparr>
                 | Some (Inr total_payments) \<Rightarrow>
                     \<lparr>stdout = [MinimumPaymentLine minimum_payment, PayoffLine target total_payments],
                      outcome = Returns\<rparr>)))"

subsection \<open>Command-line arguments\<close>

text \<open>The namespace that \<open>argparse\<close> returns; \<open>-p\<close> is optional and has no default.\<close>

record namespace =
  mortgage_amount :: real
  annual_interest_rate :: real
  years :: int
  num_annual_payments :: int
  target_payment :: "real option"

text \<open>Truth value of \<open>args.target_payment\<close>: \<open>None\<close> and \<open>0.0\<close> are false.\<close>

definition truthy :: "real option \<Rightarrow> bool" where
  "truthy v = (case v of None \<Rightarrow> False | Some x \<Rightarrow> x \<noteq> 0)"

text \<open>
  \<open>parse_args(arglist)\<close> builds the parser and calls \<^verbatim>\<open>parser.parse_args()\<close> with no
  argument, which makes \<open>argparse\<close> read \<open>sys.argv[1:]\<close>. The library's parser is the
  parameter \<open>argparse\<close>: from the argument strings to a namespace, or the exit of the
  process on a malformed command line. The checks follow in the source's order.
\<close>

definition parse_args ::
  "(string list \<Rightarrow> error + namespace) \<Rightarrow> string list \<Rightarrow> string list \<Rightarrow> error + namespace" where
  "parse_args argparse sys_argv arglist =
     (case argparse (tl sys_argv) of
        Inl e \<Rightarrow> Inl e
      | Inr args \<Rightarrow>
          if mortgage_amount args < 0 then
            Inl (ValueError ''mortgage amount must be positive'')
          else if \<not> (0 \<le> annual_interest_rate args \<and> annual_interest_rate args \<le> 1) then
            Inl (ValueError ''annual interest rate must be between 0 and 1'')
          else if years args < 1 then
            Inl (ValueError ''years must be positive'')
          else if num_annual_payments args < 0 then
            Inl (ValueError ''number of payments per year must be positive'')
          else if truthy (target_payment args) \<and> the (target_payment args) < 0 then
            Inl (ValueError ''target payment must be positive'')
          else Inr args)"

subsection \<open>A proof device: states the loop cannot leave\<close>

text \<open>
  With a target payment that does not exceed the interest due on a positive balance (and a
  periodic rate that is not negative) the balance cannot decrease. The predicate is used
  only in proofs; the program has no such test.
\<close>

definition stuck :: "real \<Rightarrow> real \<Rightarrow> real option \<Rightarrow> int \<Rightarrow> bool" where
  "stuck b rate tp F =
     (0 < b \<and> F \<noteq> 0 \<and> 0 \<le> rate / real_of_int F \<and>
      (case tp of None \<Rightarrow> False | Some t \<Rightarrow> t \<le> b * (rate / real_of_int F)))"

section \<open>The minimum payment\<close>

lemma float_div_nonzero: "b \<noteq> 0 \<Longrightarrow> float_div a b = Inr (a / b)"
  by (simp add: float_div_def)

lemma float_pow_nonneg: "0 \<le> n \<Longrightarrow> float_pow x n = Inr (x ^ nat n)"
  by (simp add: float_pow_def)

lemma power_gt_one: "1 < (q::real) \<Longrightarrow> 0 < n \<Longrightarrow> 1 < q ^ n"
  by (simp add: one_less_power)

lemma get_min_payment_value:
  assumes "0 < rate" "1 \<le> T" "1 \<le> F"
  shows "get_min_payment P rate T F =
           Inr \<lceil>P * (rate / real_of_int F) * (1 + rate / real_of_int F) ^ nat (T * F)
                / ((1 + rate / real_of_int F) ^ nat (T * F) - 1)\<rceil>"
proof -
  have F0: "real_of_int F \<noteq> 0" using assms by simp
  have n0: "0 \<le> T * F" and npos: "0 < nat (T * F)" using assms by simp_all
  have "0 < rate / real_of_int F" using assms by simp
  then have "1 < 1 + rate / real_of_int F" by simp
  then have "1 < (1 + rate / real_of_int F) ^ nat (T * F)"
    using npos by (rule power_gt_one)
  then have d0: "(1 + rate / real_of_int F) ^ nat (T * F) - 1 \<noteq> 0" by simp
  show ?thesis
    unfolding get_min_payment_def
    by (simp add: float_div_nonzero [OF F0] float_pow_nonneg [OF n0] float_div_nonzero [OF d0] Let_def)
qed

section \<open>The payoff loop with a target payment\<close>

lemma interest_due_nonzero:
  "F \<noteq> 0 \<Longrightarrow> r = rate / real_of_int F \<Longrightarrow> interest_due b rate F = Inr (b * r)"
  by (simp add: interest_due_def float_div_def)

lemma period_target:
  "F \<noteq> 0 \<Longrightarrow> r = rate / real_of_int F \<Longrightarrow>
   period b rate (Some t) F = Inr (b * r, min t (b + b * r), b - (min t (b + b * r) - b * r))"
  by (simp add: period_def interest_due_nonzero)

lemma loop_done: "\<not> 0 < b \<Longrightarrow> remaining_payments_loop b rate tp F c = Some (Inr c)"
  by (subst remaining_payments_loop.simps) simp

lemma loop_step_target:
  "0 < b \<Longrightarrow> F \<noteq> 0 \<Longrightarrow> r = rate / real_of_int F \<Longrightarrow>
   remaining_payments_loop b rate (Some t) F c =
   remaining_payments_loop (b - (min t (b + b * r) - b * r)) rate (Some t) F (c + 1)"
  by (subst remaining_payments_loop.simps) (simp add: period_target)

lemma loop_step_capped:
  assumes b: "0 < b" and F: "F \<noteq> 0" and r: "r = rate / real_of_int F"
    and cap: "b * (1 + r) \<le> t"
  shows "remaining_payments_loop b rate (Some t) F c = Some (Inr (c + 1))"
proof -
  have "b + b * r \<le> t" using cap by (simp add: distrib_left)
  then have "b - (min t (b + b * r) - b * r) = 0" by simp
  then have "remaining_payments_loop b rate (Some t) F c =
             remaining_payments_loop 0 rate (Some t) F (c + 1)"
    using loop_step_target [OF b F r, where t = t and c = c] by simp
  then show ?thesis by (simp add: loop_done)
qed

lemma loop_step_uncapped:
  assumes b: "0 < b" and F: "F \<noteq> 0" and r: "r = rate / real_of_int F"
    and lt: "t < b * (1 + r)"
  shows "remaining_payments_loop b rate (Some t) F c =
         remaining_payments_loop (b * (1 + r) - t) rate (Some t) F (c + 1)"
proof -
  have "t < b + b * r" using lt by (simp add: distrib_left)
  then have "min t (b + b * r) = t" by simp
  then have e: "b - (min t (b + b * r) - b * r) = b * (1 + r) - t"
    by (simp add: algebra_simps)
  show ?thesis
    using loop_step_target [OF b F r, where t = t and c = c] unfolding e .
qed

lemma amortize_step:
  fixes b t r :: real
  assumes "b * (1 + r) ^ Suc m * r \<le> t * ((1 + r) ^ Suc m - 1)"
  shows "(b * (1 + r) - t) * (1 + r) ^ m * r \<le> t * ((1 + r) ^ m - 1)"
proof -
  have "(b * (1 + r) - t) * (1 + r) ^ m * r = b * (1 + r) ^ Suc m * r - t * (1 + r) ^ m * r"
    by (simp add: algebra_simps)
  moreover have "t * ((1 + r) ^ Suc m - 1) - t * (1 + r) ^ m * r = t * ((1 + r) ^ m - 1)"
    by (simp add: algebra_simps)
  ultimately show ?thesis using assms by linarith
qed

lemma amortize_step_strict:
  fixes b t r :: real
  assumes "t * ((1 + r) ^ Suc m - 1) < b * (1 + r) ^ Suc m * r"
  shows "t * ((1 + r) ^ m - 1) < (b * (1 + r) - t) * (1 + r) ^ m * r"
proof -
  have "(b * (1 + r) - t) * (1 + r) ^ m * r = b * (1 + r) ^ Suc m * r - t * (1 + r) ^ m * r"
    by (simp add: algebra_simps)
  moreover have "t * ((1 + r) ^ Suc m - 1) - t * (1 + r) ^ m * r = t * ((1 + r) ^ m - 1)"
    by (simp add: algebra_simps)
  ultimately show ?thesis using assms by linarith
qed

lemma loop_diverges_aux:
  assumes ret: "remaining_payments_loop b rate tp F c = Some y"
  shows "\<not> stuck b rate tp F"
proof (rule remaining_payments_loop.raw_induct
         [where P = "\<lambda>b rate tp F c y. \<not> stuck b rate tp F", OF _ ret])
  fix f :: "real \<Rightarrow> real \<Rightarrow> real option \<Rightarrow> int \<Rightarrow> int \<Rightarrow> (error + int) option"
  fix b rate tp F c y
  assume IH: "\<And>b rate tp F c y. f b rate tp F c = Some y \<Longrightarrow> \<not> stuck b rate tp F"
  assume body:
    "(if 0 < b
      then case period b rate tp F of
             Inl e \<Rightarrow> Some (Inl e)
           | Inr (interest_due_value, payment, balance') \<Rightarrow> f balance' rate tp F (c + 1)
      else Some (Inr c)) = Some y"
  show "\<not> stuck b rate tp F"
  proof
    define r where "r = rate / real_of_int F"
    assume "stuck b rate tp F"
    then have a: "0 < b \<and> F \<noteq> 0 \<and> 0 \<le> r \<and> (case tp of None \<Rightarrow> False | Some t \<Rightarrow> t \<le> b * r)"
      unfolding stuck_def r_def .
    then obtain t where tp: "tp = Some t" and t: "t \<le> b * r"
      by (cases tp) auto
    from a have b: "0 < b" and F: "F \<noteq> 0" and r: "0 \<le> r" by simp_all
    have "0 \<le> b * r" using b r by simp
    then have m: "min t (b + b * r) = t" using t b by simp
    define b' where "b' = b - (t - b * r)"
    have b': "b \<le> b'" using t by (simp add: b'_def)
    have "b * r \<le> b' * r"
      using b' r by (rule mult_right_mono)
    then have t': "t \<le> b' * r" using t by linarith
    have "period b rate (Some t) F = Inr (b * r, t, b')"
      using period_target [OF F r_def, of b t] by (simp add: m b'_def)
    then have "f b' rate tp F (c + 1) = Some y"
      using body b by (simp add: tp)
    then have "\<not> stuck b' rate tp F" by (rule IH)
    moreover have "stuck b' rate tp F"
      unfolding stuck_def r_def [symmetric] using b b' F r t' by (simp add: tp)
    ultimately show False by contradiction
  qed
qed

lemma loop_diverges:
  assumes "0 < b" "F \<noteq> 0" "0 \<le> rate / real_of_int F" "t \<le> b * (rate / real_of_int F)"
  shows "remaining_payments_loop b rate (Some t) F c = None"
proof (cases "remaining_payments_loop b rate (Some t) F c")
  case None
  then show ?thesis .
next
  case (Some y)
  then have "\<not> stuck b rate (Some t) F" by (rule loop_diverges_aux)
  moreover have "stuck b rate (Some t) F" unfolding stuck_def using assms by simp
  ultimately show ?thesis by contradiction
qed


lemma self_le_power_real: "1 \<le> (q::real) \<Longrightarrow> q \<le> q ^ Suc m"
proof -
  assume q: "1 \<le> q"
  then have "1 \<le> q ^ m" by (rule one_le_power)
  then have "q * 1 \<le> q * q ^ m" using q by (intro mult_left_mono) simp_all
  then show ?thesis by simp
qed

lemma not_capped_early:
  fixes b t r :: real
  assumes b: "0 < b" and r: "0 \<le> r"
    and gt: "t * ((1 + r) ^ Suc m - 1) < b * (1 + r) ^ Suc m * r"
  shows "t < b * (1 + r)"
proof (rule ccontr)
  assume "\<not> t < b * (1 + r)"
  then have le: "b * (1 + r) \<le> t" by simp
  have q1: "1 \<le> 1 + r" using r by simp
  then have "1 \<le> (1 + r) ^ Suc m" by (rule one_le_power)
  then have nn: "0 \<le> (1 + r) ^ Suc m - 1" by simp
  have "b * (1 + r) * ((1 + r) ^ Suc m - 1) \<le> t * ((1 + r) ^ Suc m - 1)"
    using le nn by (rule mult_right_mono)
  then have lt: "b * (1 + r) * ((1 + r) ^ Suc m - 1) < b * (1 + r) ^ Suc m * r"
    using gt by linarith
  have "b * (1 + r) * ((1 + r) ^ Suc m - 1) - b * (1 + r) ^ Suc m * r
          = b * ((1 + r) ^ Suc m - (1 + r))"
    by (simp add: algebra_simps)
  moreover have "0 \<le> b * ((1 + r) ^ Suc m - (1 + r))"
    using b self_le_power_real [OF q1, of m] by simp
  ultimately show False using lt by linarith
qed

lemma loop_exact_count:
  assumes F: "F \<noteq> 0" and r: "r = rate / real_of_int F" and rpos: "0 < r"
  shows "0 < b \<Longrightarrow> t * ((1 + r) ^ n - 1) < b * (1 + r) ^ n * r \<Longrightarrow>
         b * (1 + r) ^ Suc n * r \<le> t * ((1 + r) ^ Suc n - 1) \<Longrightarrow>
         remaining_payments_loop b rate (Some t) F c = Some (Inr (c + int n + 1))"
proof (induction n arbitrary: b c)
  case 0
  then have "(b * (1 + r)) * r \<le> t * r" by simp
  then have "b * (1 + r) \<le> t" using rpos by simp
  with \<open>0 < b\<close> F r have "remaining_payments_loop b rate (Some t) F c = Some (Inr (c + 1))"
    by (rule loop_step_capped)
  then show ?case by simp
next
  case (Suc m)
  have "0 \<le> r" using rpos by simp
  with \<open>0 < b\<close> have lt: "t < b * (1 + r)"
    using Suc.prems(2) by (rule not_capped_early)
  have step: "remaining_payments_loop b rate (Some t) F c =
              remaining_payments_loop (b * (1 + r) - t) rate (Some t) F (c + 1)"
    using \<open>0 < b\<close> F r lt by (rule loop_step_uncapped)
  have b': "0 < b * (1 + r) - t" using lt by simp
  have lo: "t * ((1 + r) ^ m - 1) < (b * (1 + r) - t) * (1 + r) ^ m * r"
    using Suc.prems(2) by (rule amortize_step_strict)
  have hi: "(b * (1 + r) - t) * (1 + r) ^ Suc m * r \<le> t * ((1 + r) ^ Suc m - 1)"
    using Suc.prems(3) by (rule amortize_step)
  have "remaining_payments_loop (b * (1 + r) - t) rate (Some t) F (c + 1)
          = Some (Inr (c + 1 + int m + 1))"
    using b' lo hi by (rule Suc.IH)
  then show ?case using step by (simp add: add.assoc add.commute)
qed

section \<open>Two concrete loans\<close>

text \<open>
  Bounds for the growth factor \<open>(1 + 0.05 / 12) ^ 360\<close> are obtained by repeated
  squaring on intervals with ten decimal digits, which keeps every numeral small.
\<close>

lemma power_bounds_double:
  fixes q L U L' U' :: real
  assumes "L \<le> q ^ n \<and> q ^ n \<le> U" "0 \<le> L" "L' \<le> L * L" "U * U \<le> U'" "m = n + n"
  shows "L' \<le> q ^ m \<and> q ^ m \<le> U'"
proof -
  have e: "q ^ m = q ^ n * q ^ n" using assms(5) by (simp add: power_add)
  have qn: "0 \<le> q ^ n" using assms(1,2) by linarith
  have "L * L \<le> q ^ n * q ^ n" using assms(1,2) by (intro mult_mono) simp_all
  moreover have "q ^ n * q ^ n \<le> U * U" using assms(1) qn by (intro mult_mono) simp_all
  ultimately show ?thesis using assms(3,4) e by linarith
qed

lemma power_bounds_Suc:
  fixes q L U L' U' :: real
  assumes "L \<le> q ^ n \<and> q ^ n \<le> U" "0 \<le> q" "L' \<le> L * q" "U * q \<le> U'" "m = Suc n"
  shows "L' \<le> q ^ m \<and> q ^ m \<le> U'"
proof -
  have e: "q ^ m = q ^ n * q" using assms(5) by simp
  have "L * q \<le> q ^ n * q" using assms(1,2) by (intro mult_right_mono) simp_all
  moreover have "q ^ n * q \<le> U * q" using assms(1,2) by (intro mult_right_mono) simp_all
  ultimately show ?thesis using assms(3,4) e by linarith
qed

lemma growth_over_360_months:
  "(44677 / 10000 :: real) \<le> (241 / 240) ^ 360 \<and> (241 / 240 :: real) ^ 360 \<le> 44678 / 10000 \<and>
   (241 / 240 :: real) ^ 359 \<le> 44493 / 10000"
proof -
  define q :: real where "q = 241 / 240"
  have b1: "10041666666 / 10000000000 \<le> q ^ 1 \<and> q ^ 1 \<le> 10041666667 / 10000000000"
    by (simp add: q_def)
  have b2: "10083506943 / 10000000000 \<le> q ^ 2 \<and> q ^ 2 \<le> 10083506946 / 10000000000"
    by (rule power_bounds_double [OF b1]) simp_all
  have b4: "10167711226 / 10000000000 \<le> q ^ 4 \<and> q ^ 4 \<le> 10167711234 / 10000000000"
    by (rule power_bounds_double [OF b2]) simp_all
  have b5: "10210076689 / 10000000000 \<le> q ^ 5 \<and> q ^ 5 \<le> 10210076698 / 10000000000"
    by (rule power_bounds_Suc [OF b4]) (simp_all add: q_def)
  have b10: "10424566599 / 10000000000 \<le> q ^ 10 \<and> q ^ 10 \<le> 10424566618 / 10000000000"
    by (rule power_bounds_double [OF b5]) simp_all
  have b11: "10468002293 / 10000000000 \<le> q ^ 11 \<and> q ^ 11 \<le> 10468002313 / 10000000000"
    by (rule power_bounds_Suc [OF b10]) (simp_all add: q_def)
  have b22: "10957907200 / 10000000000 \<le> q ^ 22 \<and> q ^ 22 \<le> 10957907243 / 10000000000"
    by (rule power_bounds_double [OF b11]) simp_all
  have b44: "12007573020 / 10000000000 \<le> q ^ 44 \<and> q ^ 44 \<le> 12007573115 / 10000000000"
    by (rule power_bounds_double [OF b22]) simp_all
  have b45: "12057604574 / 10000000000 \<le> q ^ 45 \<and> q ^ 45 \<le> 12057604670 / 10000000000"
    by (rule power_bounds_Suc [OF b44]) (simp_all add: q_def)
  have b90: "14538582806 / 10000000000 \<le> q ^ 90 \<and> q ^ 90 \<le> 14538583038 / 10000000000"
    by (rule power_bounds_double [OF b45]) simp_all
  have b180: "21137039000 / 10000000000 \<le> q ^ 180 \<and> q ^ 180 \<le> 21137039676 / 10000000000"
    by (rule power_bounds_double [OF b90]) simp_all
  have b360: "44677441768 / 10000000000 \<le> q ^ 360 \<and> q ^ 360 \<le> 44677444627 / 10000000000"
    by (rule power_bounds_double [OF b180]) simp_all
  have "q ^ 360 = q ^ 359 * q" by (simp add: power_Suc2 [symmetric])
  then have "q ^ 359 * (241 / 240) \<le> 44677444627 / 10000000000"
    using b360 by (simp add: q_def)
  then have "q ^ 359 \<le> 44493 / 10000" by simp
  then show ?thesis using b360 unfolding q_def by simp
qed

lemma minpay_200000: "get_min_payment 200000 (5/100) 30 12 = Inr 1074"
proof -
  define Q :: real where "Q = (241 / 240) ^ 360"
  have Q: "44677 / 10000 \<le> Q" "Q \<le> 44678 / 10000"
    using growth_over_360_months by (simp_all add: Q_def)
  have "get_min_payment 200000 (5/100) 30 12 =
          Inr \<lceil>200000 * ((5/100) / real_of_int 12) * (1 + (5/100) / real_of_int 12) ^ nat (30 * 12)
                / ((1 + (5/100) / real_of_int 12) ^ nat (30 * 12) - 1)\<rceil>"
    by (rule get_min_payment_value) simp_all
  also have "\<dots> = Inr \<lceil>200000 * (1 / 240) * Q / (Q - 1)\<rceil>"
    by (simp add: Q_def)
  also have "\<lceil>200000 * (1 / 240) * Q / (Q - 1)\<rceil> = 1074"
  proof (rule ceiling_unique)
    have d: "0 < Q - 1" using Q by simp
    show "real_of_int 1074 - 1 < 200000 * (1 / 240) * Q / (Q - 1)"
      using Q d by (simp add: pos_less_divide_eq)
    show "200000 * (1 / 240) * Q / (Q - 1) \<le> real_of_int 1074"
      using Q d by (simp add: pos_divide_le_eq)
  qed
  finally show ?thesis .
qed

lemma payoff_200000: "remaining_payments 200000 (5/100) (Some 1074) 12 = Some (Inr 360)"
proof -
  define Q :: real where "Q = (241 / 240) ^ 360"
  define Q' :: real where "Q' = (241 / 240) ^ 359"
  have Q: "44677 / 10000 \<le> Q" "Q' \<le> 44493 / 10000"
    using growth_over_360_months by (simp_all add: Q_def Q'_def)
  have F: "(12::int) \<noteq> 0" by simp
  have r: "(1 / 240 :: real) = (5/100) / real_of_int 12" by simp
  have rpos: "(0::real) < 1 / 240" by simp
  have b: "(0::real) < 200000" by simp
  have lo: "1074 * ((1 + 1 / 240) ^ 359 - 1) < 200000 * (1 + 1 / 240 :: real) ^ 359 * (1 / 240)"
  proof -
    have "1074 * (Q' - 1) < 200000 * Q' * (1 / 240)" using Q(2) by simp
    then show ?thesis by (simp add: Q'_def)
  qed
  have hi: "200000 * (1 + 1 / 240 :: real) ^ Suc 359 * (1 / 240) \<le> 1074 * ((1 + 1 / 240) ^ Suc 359 - 1)"
  proof -
    have "200000 * Q * (1 / 240) \<le> 1074 * (Q - 1)" using Q(1) by simp
    then show ?thesis unfolding Q_def by simp
  qed
  have "remaining_payments_loop 200000 (5/100) (Some 1074) 12 0 = Some (Inr (0 + int 359 + 1))"
    using F r rpos b lo hi by (rule loop_exact_count)
  then show ?thesis by (simp add: remaining_payments_def)
qed

lemma minpay_10000: "get_min_payment 10000 (3/100) 5 12 = Inr 180"
proof -
  have "get_min_payment 10000 (3/100) 5 12 =
          Inr \<lceil>10000 * ((3/100) / real_of_int 12) * (1 + (3/100) / real_of_int 12) ^ nat (5 * 12)
                / ((1 + (3/100) / real_of_int 12) ^ nat (5 * 12) - 1)\<rceil>"
    by (rule get_min_payment_value) simp_all
  also have "\<dots> = Inr 180"
    by (simp add: ceiling_eq_iff power_divide)
  finally show ?thesis .
qed

section \<open>The claims of the specification\<close>

text \<open>
  Claim C3, as the specification states it, asks that a payment which does not exceed the
  interest due be detected by a guard and reported as a "payment too low to amortize"
  condition. The loop has no guard: with a balance of 100, an annual rate of 12 percent,
  12 payments per year and a target payment of 1, the interest due is 1 and
  \<open>remaining_payments\<close> neither returns nor raises.
\<close>

theorem remaining_payments_guard_counterexample:
  "interest_due 100 (12/100) 12 = Inr 1 \<and> remaining_payments 100 (12/100) (Some 1) 12 = None"
proof -
  have i: "interest_due 100 (12/100) 12 = Inr 1"
    by (simp add: interest_due_def float_div_def)
  have "remaining_payments_loop 100 (12/100) (Some 1) 12 0 = None"
    by (rule loop_diverges) simp_all
  then show ?thesis using i by (simp add: remaining_payments_def)
qed

text \<open>
  Claim C3, amended. \<open>remaining_payments\<close> has no guard against a payment that does not
  exceed the interest due: there are a positive balance, a rate, a number of payments per
  year and a target payment not above the interest due on that balance for which it
  neither returns nor raises. One such input is a balance of 200 at an annual rate of 0.5
  with one payment per year and a target payment of 100: the interest due is 100, the
  payment equals it and the balance stays at 200.
\<close>

theorem remaining_payments_can_hang:
  "\<exists>b rate F t i. 0 < b \<and> interest_due b rate F = Inr i \<and> t \<le> i \<and>
                   remaining_payments b rate (Some t) F = None"
proof -
  have i: "interest_due 200 (1/2) 1 = Inr 100"
    by (simp add: interest_due_def float_div_def)
  have "remaining_payments_loop 200 (1/2) (Some 100) 1 0 = None"
    by (rule loop_diverges) simp_all
  then have "remaining_payments 200 (1/2) (Some 100) 1 = None"
    by (simp add: remaining_payments_def)
  with i have "(0::real) < 200 \<and> interest_due 200 (1/2) 1 = Inr 100 \<and> (100::real) \<le> 100 \<and>
               remaining_payments 200 (1/2) (Some 100) 1 = None"
    by simp
  then show ?thesis by blast
qed

text \<open>
  Claim C4 asks that an annual rate of 0 give \<open>ceil(principal / (term * frequency))\<close>. The
  command line \<^verbatim>\<open>mortgage.py 1200 0 -y 1\<close> passes every check of \<open>parse_args\<close> (a rate
  of 0 satisfies \<open>0 <= rate <= 1\<close>), and \<open>main\<close> then raises \<open>ZeroDivisionError\<close> in
  \<open>get_min_payment\<close> before it prints anything: the rate per payment is 0,
  \<open>(1 + 0) ** 12 - 1\<close> is 0, and the formula divides by it. The claim expects 100.
\<close>

theorem zero_rate_accepted_then_raises:
  "parse_args
     (\<lambda>argv. Inr \<lparr>mortgage_amount = 1200, annual_interest_rate = 0, years = 1,
                   num_annual_payments = 12, target_payment = None\<rparr>)
     [''mortgage.py'', ''1200'', ''0'', ''-y'', ''1''] [''1200'', ''0'', ''-y'', ''1'']
     = Inr \<lparr>mortgage_amount = 1200, annual_interest_rate = 0, years = 1,
             num_annual_payments = 12, target_payment = None\<rparr> \<and>
   get_min_payment 1200 0 1 12 = Inl ZeroDivisionError \<and>
   get_min_payment 1200 0 1 12 \<noteq> Inr \<lceil>1200 / real_of_int (1 * 12)\<rceil> \<and>
   main 1200 0 1 12 None = \<lparr>stdout = [], outcome = Raises ZeroDivisionError\<rparr>"
proof -
  have m: "get_min_payment 1200 0 1 12 = Inl ZeroDivisionError"
    by (simp add: get_min_payment_def float_div_def float_pow_def)
  show ?thesis
    using m by (simp add: parse_args_def truthy_def main_def)
qed

text \<open>
  Claim C5. In a period of \<open>remaining_payments\<close> with no target payment, the payment is
  the minimum payment of the current balance over the fixed 30 years at 12 payments per
  year, whatever number of payments per year the caller passed (which only the interest
  due depends on); the loop goes on from the balance reduced by that payment less the
  interest.
\<close>

theorem no_target_uses_fixed_defaults:
  "(period b rate None F = Inr (i, p, b') \<longrightarrow>
      interest_due b rate F = Inr i \<and>
      (\<exists>m. get_min_payment b rate 30 12 = Inr m \<and> p = real_of_int m) \<and>
      b' = b - (p - i)) \<and>
   (0 < b \<and> interest_due b rate F = Inr i \<and> get_min_payment b rate 30 12 = Inr m \<longrightarrow>
      remaining_payments_loop b rate None F c =
      remaining_payments_loop (b - (real_of_int m - i)) rate None F (c + 1))"
proof -
  have one: "interest_due b rate F = Inr i \<and>
      (\<exists>m. get_min_payment b rate 30 12 = Inr m \<and> p = real_of_int m) \<and> b' = b - (p - i)"
    if "period b rate None F = Inr (i, p, b')"
    using that by (auto simp: period_def split: sum.splits)
  have two: "remaining_payments_loop b rate None F c =
      remaining_payments_loop (b - (real_of_int m - i)) rate None F (c + 1)"
    if a: "0 < b \<and> interest_due b rate F = Inr i \<and> get_min_payment b rate 30 12 = Inr m"
  proof -
    have "period b rate None F = Inr (i, real_of_int m, b - (real_of_int m - i))"
      using a by (simp add: period_def)
    then show ?thesis
      using a by (subst remaining_payments_loop.simps) simp
  qed
  show ?thesis using one two by blast
qed

theorem no_target_uses_fixed_defaults_witness:
  "period 200000 (5/100) None 1 = Inr (10000, 1074, 208926) \<and>
   interest_due 200000 (5/100) 1 = Inr 10000 \<and>
   get_min_payment 200000 (5/100) 30 12 = Inr 1074 \<and>
   (\<exists>m. get_min_payment 200000 (5/100) 30 12 = Inr m \<and> (1074::real) = real_of_int m) \<and>
   (0::real) < 200000 \<and>
   remaining_payments_loop 200000 (5/100) None 1 0 =
     remaining_payments_loop (200000 - (real_of_int 1074 - 10000)) (5/100) None 1 (0 + 1)"
proof -
  have i: "interest_due 200000 (5/100) 1 = Inr 10000"
    by (simp add: interest_due_def float_div_def)
  have p: "period 200000 (5/100) None 1 = Inr (10000, 1074, 208926)"
    using i minpay_200000 by (simp add: period_def)
  show ?thesis
    using i p minpay_200000
      no_target_uses_fixed_defaults [of 200000 "5/100" 1 10000 1074 208926 1074 0]
    by simp
qed

text \<open>
  Claim C6. When the supplied target payment is strictly less than the computed minimum
  payment, \<open>main\<close> prints the minimum payment and the warning and returns: its run does
  not depend on what the simulator would do (also where the simulator would never return)
  and the warning line carries no payment count.
\<close>

theorem main_warns_without_simulating:
  assumes "get_min_payment P rate T F = Inr m" "t < real_of_int m"
  shows "main P rate T F (Some t) =
           \<lparr>stdout = [MinimumPaymentLine m, WarningLine], outcome = Returns\<rparr>"
  using assms by (simp add: main_def)

theorem main_warns_without_simulating_witness:
  "get_min_payment 10000 (3/100) 5 12 = Inr 180 \<and> (50::real) < real_of_int 180 \<and>
   main 10000 (3/100) 5 12 (Some 50) =
     \<lparr>stdout = [MinimumPaymentLine 180, WarningLine], outcome = Returns\<rparr> \<and>
   (20::real) < real_of_int 180 \<and>
   remaining_payments 10000 (3/100) (Some 20) 12 = None \<and>
   main 10000 (3/100) 5 12 (Some 20) =
     \<lparr>stdout = [MinimumPaymentLine 180, WarningLine], outcome = Returns\<rparr>"
proof -
  have "remaining_payments_loop 10000 (3/100) (Some 20) 12 0 = None"
    by (rule loop_diverges) simp_all
  then have d: "remaining_payments 10000 (3/100) (Some 20) 12 = None"
    by (simp add: remaining_payments_def)
  show ?thesis
    using d minpay_10000
      main_warns_without_simulating [OF minpay_10000, of 50]
      main_warns_without_simulating [OF minpay_10000, of 20]
    by simp
qed

text \<open>
  Claim C9. For a principal of 200000 at an annual rate of 0.05 over 30 years with 12
  payments per year, \<open>get_min_payment\<close> returns exactly 1074, and \<open>main\<close> with no
  target payment reports that the mortgage is paid off in exactly 360 payments.
\<close>

theorem scenario_200000:
  "get_min_payment 200000 (5/100) 30 12 = Inr 1074 \<and>
   main 200000 (5/100) 30 12 None =
     \<lparr>stdout = [MinimumPaymentLine 1074, PayoffLine 1074 360], outcome = Returns\<rparr>"
  using minpay_200000 payoff_200000 by (simp add: main_def)

text \<open>
  Claim C10. \<open>parse_args\<close> ignores its \<open>arglist\<close> parameter: the result is the same
  for any two values of it, being determined by \<open>sys.argv\<close>. A target payment of exactly 0
  is never rejected by the check of the target payment, whose first conjunct is the truth
  value of the target payment.
\<close>

theorem parse_args_ignores_arglist:
  "parse_args argparse sys_argv arglist = parse_args argparse sys_argv arglist' \<and>
   (argparse (tl sys_argv) = Inr args \<and> target_payment args = Some 0 \<longrightarrow>
      parse_args argparse sys_argv arglist \<noteq> Inl (ValueError ''target payment must be positive''))"
  by (auto simp: parse_args_def truthy_def)

theorem parse_args_ignores_arglist_witness:
  "(\<lambda>argv. Inr \<lparr>mortgage_amount = 1000, annual_interest_rate = 5/100, years = 30,
               num_annual_payments = 12, target_payment = Some 0\<rparr>)
     (tl [''mortgage.py'', ''1000'', ''0.05'', ''-p'', ''0''])
     = (Inr \<lparr>mortgage_amount = 1000, annual_interest_rate = 5/100, years = 30,
               num_annual_payments = 12, target_payment = Some 0\<rparr> :: error + namespace) \<and>
   target_payment \<lparr>mortgage_amount = 1000, annual_interest_rate = 5/100, years = 30,
               num_annual_payments = 12, target_payment = Some 0\<rparr> = Some 0 \<and>
   parse_args (\<lambda>argv. Inr \<lparr>mortgage_amount = 1000, annual_interest_rate = 5/100, years = 30,
               num_annual_payments = 12, target_payment = Some 0\<rparr>)
     [''mortgage.py'', ''1000'', ''0.05'', ''-p'', ''0''] [''2000'', ''0.5'']
   = parse_args (\<lambda>argv. Inr \<lparr>mortgage_amount = 1000, annual_interest_rate = 5/100, years = 30,
               num_annual_payments = 12, target_payment = Some 0\<rparr>)
     [''mortgage.py'', ''1000'', ''0.05'', ''-p'', ''0''] [] \<and>
   parse_args (\<lambda>argv. Inr \<lparr>mortgage_amount = 1000, annual_interest_rate = 5/100, years = 30,
               num_annual_payments = 12, target_payment = Some 0\<rparr>)
     [''mortgage.py'', ''1000'', ''0.05'', ''-p'', ''0''] [''2000'', ''0.5'']
   \<noteq> Inl (ValueError ''target payment must be positive'')"
  using parse_args_ignores_arglist
    [of "\<lambda>argv. Inr \<lparr>mortgage_amount = 1000, annual_interest_rate = 5/100, years = 30,
               num_annual_payments = 12, target_payment = Some 0\<rparr>"
        "[''mortgage.py'', ''1000'', ''0.05'', ''-p'', ''0'']" "[''2000'', ''0.5'']" "[]"
        "\<lparr>mortgage_amount = 1000, annual_interest_rate = 5/100, years = 30,
               num_annual_payments = 12, target_payment = Some 0\<rparr>"]
  by (simp add: parse_args_def truthy_def)

end
